theory Spec2Isabelle
  imports Main "HOL-Library.Word" "HOL-Library.Multiset"
begin

section \<open>Data model\<close>

text \<open>
  Both programs of the repository (\<^verbatim>\<open>cmd/main.go\<close>, the mutual-TLS variant, and the
  second \<^verbatim>\<open>main\<close> package, the role-binding variant) declare the same
  \<^verbatim>\<open>KubeConfig\<close> struct. The nested anonymous structs are records of their own; field
  names carry a prefix where Go reuses a name (\<^verbatim>\<open>Name\<close>, \<^verbatim>\<open>User\<close>, \<^verbatim>\<open>Cluster\<close>).
  A Go \<^verbatim>\<open>string\<close> is a byte sequence, as \<^typ>\<open>string\<close> is; a \<^verbatim>\<open>[]byte\<close> is a list of
  8-bit words, the nil slice being the empty list (the code only ranges over these
  slices and hands them to library calls, which do not tell nil from empty).
\<close>

type_synonym bytes = "8 word list"

record ctx_Context =
  ctx_Cluster :: string
  ctx_User :: string

record ContextEntry =
  ctx_Name :: string
  Context :: ctx_Context

record user_User =
  ClientCertificateData :: string
  ClientKeyData :: string

record UserEntry =
  user_Name :: string
  User :: user_User

record cluster_Cluster =
  Server :: string
  CertificateAuthorityData :: string

record ClusterEntry =
  cluster_Name :: string
  Cluster :: cluster_Cluster

record KubeConfig =
  Contexts :: "ContextEntry list"
  Users :: "UserEntry list"
  Clusters :: "ClusterEntry list"

text \<open>The fields of the Kubernetes RBAC objects that the handlers read.\<close>

record Subject =
  Kind :: string
  subject_Name :: string

record RoleRef =
  roleRef_Name :: string

record ClusterRoleBinding =
  Subjects :: "Subject list"
  RoleRef :: RoleRef

record RoleBinding =
  rb_Subjects :: "Subject list"
  rb_RoleRef :: RoleRef

section \<open>The role check of the protected page\<close>

text \<open>
  The nested loop of the \<^verbatim>\<open>GET /home\<close> handler of the role-binding variant:
  \<^verbatim>\<open>
  userAuthorized := false
  for _, crb := range crbs.Items {
      for _, subject := range crb.Subjects {
          if subject.Kind == "User" && subject.Name == selectedUser &&
             crb.RoleRef.Name == requiredRoleBinding {
              userAuthorized = true
              break
          }
      }
      if userAuthorized { break }
  }
  \<close>
  Each loop is a recursion over the slice that threads the flag; \<^verbatim>\<open>break\<close> returns
  without visiting the rest.
\<close>

fun subjects_loop :: "string \<Rightarrow> string \<Rightarrow> ClusterRoleBinding \<Rightarrow> Subject list \<Rightarrow> bool \<Rightarrow> bool" where
  "subjects_loop selectedUser requiredRoleBinding crb [] userAuthorized = userAuthorized"
| "subjects_loop selectedUser requiredRoleBinding crb (subject # rest) userAuthorized =
     (if Kind subject = ''User'' \<and> subject_Name subject = selectedUser
         \<and> roleRef_Name (RoleRef crb) = requiredRoleBinding
      then True
      else subjects_loop selectedUser requiredRoleBinding crb rest userAuthorized)"

fun items_loop :: "string \<Rightarrow> string \<Rightarrow> ClusterRoleBinding list \<Rightarrow> bool \<Rightarrow> bool" where
  "items_loop selectedUser requiredRoleBinding [] userAuthorized = userAuthorized"
| "items_loop selectedUser requiredRoleBinding (crb # rest) userAuthorized =
     (let userAuthorized' =
            subjects_loop selectedUser requiredRoleBinding crb (Subjects crb) userAuthorized
      in if userAuthorized' then userAuthorized'
         else items_loop selectedUser requiredRoleBinding rest userAuthorized')"

definition CheckAccess :: "string \<Rightarrow> string \<Rightarrow> ClusterRoleBinding list \<Rightarrow> bool" where
  "CheckAccess selectedUser requiredRoleBinding items =
     items_loop selectedUser requiredRoleBinding items False"


section \<open>Requests, responses and sessions\<close>

text \<open>
  What a gin handler writes: \<^verbatim>\<open>c.String(code, format, ...)\<close>, \<^verbatim>\<open>c.HTML(code, name, obj)\<close>
  and \<^verbatim>\<open>c.Redirect(code, location)\<close>, each with its HTTP status code.
\<close>

datatype template_data =
    H_Contexts "ContextEntry list"
  | H_Message string
  | H_Bindings "ClusterRoleBinding list" "RoleBinding list"

datatype response =
    c_String nat string
  | c_HTML nat string template_data
  | c_Redirect nat string

fun status :: "response \<Rightarrow> nat" where
  "status (c_String code body) = code"
| "status (c_HTML code name obj) = code"
| "status (c_Redirect code location) = code"

text \<open>
  A session maps keys to values of type \<^verbatim>\<open>interface{}\<close>; the handlers store a
  \<^verbatim>\<open>bool\<close> and strings, and a value of any other dynamic type can come back from the
  cookie.
\<close>

datatype session_value = Bool_val bool | String_val string | Int_val int

type_synonym session = "string \<rightharpoonup> session_value"

text \<open>
  What a handler call leaves behind: the response, the in-memory session after the
  \<^verbatim>\<open>session.Set\<close> calls, the session written to the cookie by a successful
  \<^verbatim>\<open>session.Save\<close> (\<open>None\<close> when nothing was written), and the URL
  arguments of the calls to \<^verbatim>\<open>client.Get\<close>, in order (one entry for each call, whatever
  number of requests the HTTP client sends for it).
\<close>

record handler_out =
  response :: response
  session_mem :: session
  cookie :: "session option"
  probes :: "string list"

text \<open>
  The mutual-TLS handler also leaves the three arrays that \<^verbatim>\<open>DecodeString\<close> allocated
  for it; \<open>plaintext\<close> is their content at the moment the handler returns.
\<close>

record buffers =
  clientCert :: bytes
  clientKey :: bytes
  caCert :: bytes

record tls_handler_out = handler_out +
  plaintext :: buffers

text \<open>A handler either returns or panics (a failed type assertion).\<close>

datatype 'a go = Panic string | Return 'a

section \<open>Library calls\<close>

text \<open>
  The handlers call the Go standard library, gin-contrib/sessions and client-go. These
  calls are parameters of the model, with the result shapes of their Go signatures: a
  call returning \<^verbatim>\<open>(value, error)\<close> where the value is used only without error is a sum
  (\<open>Inl\<close> the error text), \<^verbatim>\<open>DecodeString\<close> is a pair because it returns the bytes
  decoded so far together with its error, \<^verbatim>\<open>AppendCertsFromPEM\<close> is \<open>None\<close> when it
  reports \<^verbatim>\<open>false\<close>, and \<^verbatim>\<open>Get\<close> yields the \<^verbatim>\<open>StatusCode\<close> of the
  response that the call returns (the last one, when the client followed redirects).
\<close>

datatype CorruptInputError = CorruptInputError

datatype ClientAuthType =
    NoClientCert
  | RequestClientCert
  | RequireAnyClientCert
  | VerifyClientCertIfGiven
  | RequireAndVerifyClientCert

record ('cert, 'pool) tls_Config =
  Certificates :: "'cert list"
  RootCAs :: 'pool
  ClientCAs :: 'pool
  ClientAuth :: ClientAuthType

record ('cert, 'pool) lib =
  DecodeString :: "string \<Rightarrow> bytes \<times> CorruptInputError option"
  X509KeyPair :: "bytes \<Rightarrow> bytes \<Rightarrow> string + 'cert"
  AppendCertsFromPEM :: "bytes \<Rightarrow> 'pool option"
  Get :: "('cert, 'pool) tls_Config \<Rightarrow> string \<Rightarrow> string + nat"
  Save :: "session \<Rightarrow> string option"

record ('cc, 'rc, 'cs) k8s =
  NewClientConfigFromBytes :: "bytes option \<Rightarrow> string + 'cc"
  ClientConfig :: "'cc \<Rightarrow> string + 'rc"
  NewForConfig :: "'rc \<Rightarrow> string + 'cs"
  ListClusterRoleBindings :: "'cs \<Rightarrow> string + ClusterRoleBinding list"
  ListRoleBindings :: "'cs \<Rightarrow> string + RoleBinding list"

text \<open>\<^verbatim>\<open>os.Getenv\<close> returns the empty string for a variable that is not set.\<close>

type_synonym environ = "string \<rightharpoonup> string"

definition Getenv :: "environ \<Rightarrow> string \<Rightarrow> string" where
  "Getenv env key = (case env key of None \<Rightarrow> '''' | Some v \<Rightarrow> v)"

section \<open>Startup\<close>

text \<open>
  \<^verbatim>\<open>main\<close> up to the registration of the routes, the same in both variants:
  \<^verbatim>\<open>
  kubeConfigBytes, err := os.ReadFile(kubeConfigPath)
  if err != nil { log.Printf(...); kubeConfigBytes = nil }
  var kubeConfig KubeConfig
  if kubeConfigBytes != nil {
      err = yaml.Unmarshal(kubeConfigBytes, &kubeConfig)
      if err != nil { log.Fatalf("Failed to parse kubeconfig: %v", err) }
  }
  \<close>
  The argument \<open>readFile\<close> is the pair that \<^verbatim>\<open>os.ReadFile\<close> returned; \<^verbatim>\<open>log.Fatalf\<close>
  exits the process, so no route is ever served.
\<close>

record server =
  kubeConfigBytes :: "bytes option"
  kubeConfig :: KubeConfig

datatype main_result = Fatalf string | Serving server

definition main :: "(bytes \<Rightarrow> string + KubeConfig) \<Rightarrow> bytes option \<times> string option \<Rightarrow> main_result" where
  "main Unmarshal readFile =
     (let kubeConfigBytes = (if snd readFile \<noteq> None then None else fst readFile)
      in case kubeConfigBytes of
           None \<Rightarrow>
             Serving \<lparr>kubeConfigBytes = None,
                      kubeConfig = \<lparr>Contexts = [], Users = [], Clusters = []\<rparr>\<rparr>
         | Some b \<Rightarrow>
             (case Unmarshal b of
                Inl err \<Rightarrow> Fatalf (''Failed to parse kubeconfig: '' @ err)
              | Inr cfg \<Rightarrow> Serving \<lparr>kubeConfigBytes = Some b, kubeConfig = cfg\<rparr>))"

text \<open>\<^verbatim>\<open>GET /\<close>, the same in both variants.\<close>

definition index :: "server \<Rightarrow> response" where
  "index srv =
     (if kubeConfigBytes srv \<noteq> None \<and> length (Contexts (kubeConfig srv)) > 0
      then c_HTML 200 ''contexts.html'' (H_Contexts (Contexts (kubeConfig srv)))
      else c_String 200
        ''No kubeconfig found or no contexts available. Application running without kubeconfig.'')"

section \<open>Context selection with mutual TLS (cmd/main.go)\<close>

text \<open>
  The three lookup loops of \<^verbatim>\<open>POST /select-context\<close>. Each stops at the first entry
  with the wanted name; without one the variables keep their zero values (empty strings,
  nil slices). The error that \<^verbatim>\<open>DecodeString\<close> returns is assigned to \<^verbatim>\<open>_\<close>.
\<close>

fun find_context :: "ContextEntry list \<Rightarrow> string \<Rightarrow> string \<times> string" where
  "find_context [] selectedContext = ('''', '''')"
| "find_context (ctx # rest) selectedContext =
     (if ctx_Name ctx = selectedContext
      then (ctx_User (Context ctx), ctx_Cluster (Context ctx))
      else find_context rest selectedContext)"

fun find_user ::
  "(string \<Rightarrow> bytes \<times> CorruptInputError option) \<Rightarrow> UserEntry list \<Rightarrow> string \<Rightarrow> bytes \<times> bytes" where
  "find_user decode [] selectedUser = ([], [])"
| "find_user decode (user # rest) selectedUser =
     (if user_Name user = selectedUser
      then (fst (decode (ClientCertificateData (User user))),
            fst (decode (ClientKeyData (User user))))
      else find_user decode rest selectedUser)"

fun find_cluster ::
  "(string \<Rightarrow> bytes \<times> CorruptInputError option) \<Rightarrow> ClusterEntry list \<Rightarrow> string \<Rightarrow> bytes \<times> string" where
  "find_cluster decode [] selectedCluster = ([], '''')"
| "find_cluster decode (cluster # rest) selectedCluster =
     (if cluster_Name cluster = selectedCluster
      then (fst (decode (CertificateAuthorityData (Cluster cluster))),
            Server (Cluster cluster))
      else find_cluster decode rest selectedCluster)"

text \<open>\<^verbatim>\<open>for i := range b { b[i] = 0 }\<close>\<close>

definition clear :: "bytes \<Rightarrow> bytes" where
  "clear b = fold (\<lambda>i b. b[i := 0]) [0..<length b] b"

definition tls_out :: "response \<Rightarrow> session \<Rightarrow> session option \<Rightarrow> string list \<Rightarrow> buffers \<Rightarrow> tls_handler_out" where
  "tls_out r s c p b =
     \<lparr>response = r, session_mem = s, cookie = c, probes = p, plaintext = b\<rparr>"

text \<open>
  The handler, exit by exit. The zeroing loops stand where the source has them: after
  the key pair was built (certificate and key) and after the CA pool was built (CA data).
\<close>

definition select_context ::
  "('cert, 'pool) lib \<Rightarrow> server \<Rightarrow> string \<Rightarrow> session \<Rightarrow> tls_handler_out" where
  "select_context L srv selectedContext sess =
     (if kubeConfigBytes srv = None \<or> length (Contexts (kubeConfig srv)) = 0 then
        tls_out (c_String 400 ''No kubeconfig file or contexts available to select.'')
          sess None [] \<lparr>clientCert = [], clientKey = [], caCert = []\<rparr>
      else
        let (selectedUser, selectedCluster) =
              find_context (Contexts (kubeConfig srv)) selectedContext;
            (clientCert, clientKey) =
              find_user (DecodeString L) (Users (kubeConfig srv)) selectedUser;
            (caCert, clusterServer) =
              find_cluster (DecodeString L) (Clusters (kubeConfig srv)) selectedCluster
        in case X509KeyPair L clientCert clientKey of
             Inl err \<Rightarrow>
               tls_out (c_String 500 (''Failed to load client key pair: '' @ err))
                 sess None []
                 \<lparr>clientCert = clientCert, clientKey = clientKey, caCert = caCert\<rparr>
           | Inr clientCertPair \<Rightarrow>
               let clientCert = clear clientCert;
                   clientKey = clear clientKey
               in (case AppendCertsFromPEM L caCert of
                     None \<Rightarrow>
                       tls_out (c_String 500 ''Failed to append CA certificate to pool'')
                         sess None []
                         \<lparr>clientCert = clientCert, clientKey = clientKey, caCert = caCert\<rparr>
                   | Some caCertPool \<Rightarrow>
                       let caCert = clear caCert;
                           mem = \<lparr>clientCert = clientCert, clientKey = clientKey,
                                  caCert = caCert\<rparr>;
                           tlsConfig = \<lparr>Certificates = [clientCertPair],
                                        RootCAs = caCertPool,
                                        ClientCAs = caCertPool,
                                        ClientAuth = RequireAndVerifyClientCert\<rparr>
                       in (case Get L tlsConfig clusterServer of
                             Inl err \<Rightarrow>
                               tls_out (c_String 401 (''Authentication failed: '' @ err))
                                 sess None [clusterServer] mem
                           | Inr StatusCode \<Rightarrow>
                               if StatusCode \<noteq> 200 then
                                 tls_out (c_String 401 ''Authentication failed: <nil>'')
                                   sess None [clusterServer] mem
                               else
                                 let session = sess(''authenticated'' \<mapsto> Bool_val True)
                                 in tls_out (c_Redirect 302 ''/home'') session
                                      (case Save L session of
                                         None \<Rightarrow> Some session
                                       | Some err \<Rightarrow> None)
                                      [clusterServer] mem)))"

text \<open>\<^verbatim>\<open>GET /home\<close> of cmd/main.go.\<close>

definition home :: "session \<Rightarrow> response" where
  "home sess =
     (if sess ''authenticated'' \<noteq> Some (Bool_val True) then c_Redirect 302 ''/''
      else c_HTML 200 ''home.html'' (H_Message ''Welcome to the protected home page!''))"

section \<open>Context selection and protected page of the role-binding variant\<close>

text \<open>
  \<^verbatim>\<open>POST /select-context\<close>: the same guard and the same context loop, then
  \<^verbatim>\<open>
  session.Set("authenticated", true)
  session.Set("user", selectedUser)
  session.Set("cluster", selectedCluster)
  err := session.Save()
  if err != nil { ...; c.String(http.StatusInternalServerError, "Failed to save session"); return }
  c.Redirect(http.StatusFound, "/home")
  \<close>
  The handler issues no request.
\<close>

definition select_context_rb ::
  "(session \<Rightarrow> string option) \<Rightarrow> server \<Rightarrow> string \<Rightarrow> session \<Rightarrow> handler_out" where
  "select_context_rb save srv selectedContext sess =
     (if kubeConfigBytes srv = None \<or> length (Contexts (kubeConfig srv)) = 0 then
        \<lparr>response = c_String 400 ''No kubeconfig file or contexts available to select.'',
         session_mem = sess, cookie = None, probes = []\<rparr>
      else
        let (selectedUser, selectedCluster) =
              find_context (Contexts (kubeConfig srv)) selectedContext;
            session = sess(''authenticated'' \<mapsto> Bool_val True,
                           ''user'' \<mapsto> String_val selectedUser,
                           ''cluster'' \<mapsto> String_val selectedCluster)
        in case save session of
             Some err \<Rightarrow>
               \<lparr>response = c_String 500 ''Failed to save session'',
                session_mem = session, cookie = None, probes = []\<rparr>
           | None \<Rightarrow>
               \<lparr>response = c_Redirect 302 ''/home'',
                session_mem = session, cookie = Some session, probes = []\<rparr>)"

text \<open>
  \<^verbatim>\<open>GET /home\<close>. \<^verbatim>\<open>auth != true\<close> compares an \<^verbatim>\<open>interface{}\<close> with a \<^verbatim>\<open>bool\<close>: they are
  equal only for a stored \<^verbatim>\<open>bool\<close> that is true. \<^verbatim>\<open>session.Get("user").(string)\<close> is a
  type assertion without the comma-ok form: it panics unless the stored value is a
  string.
\<close>

definition home_rb ::
  "('cc, 'rc, 'cs) k8s \<Rightarrow> environ \<Rightarrow> server \<Rightarrow> session \<Rightarrow> response go" where
  "home_rb K env srv sess =
     (if sess ''authenticated'' \<noteq> Some (Bool_val True) then Return (c_Redirect 302 ''/'')
      else
        case sess ''user'' of
          Some (String_val selectedUser) \<Rightarrow>
            (case NewClientConfigFromBytes K (kubeConfigBytes srv) of
               Inl err \<Rightarrow> Return (c_String 500 ''Failed to create Kubernetes client config'')
             | Inr clientConfig \<Rightarrow>
            (case ClientConfig K clientConfig of
               Inl err \<Rightarrow> Return (c_String 500 ''Failed to create Kubernetes REST config'')
             | Inr restConfig \<Rightarrow>
            (case NewForConfig K restConfig of
               Inl err \<Rightarrow> Return (c_String 500 ''Failed to create Kubernetes clientset'')
             | Inr clientset \<Rightarrow>
            (case ListClusterRoleBindings K clientset of
               Inl err \<Rightarrow> Return (c_String 500 ''Failed to list ClusterRoleBindings'')
             | Inr crbs \<Rightarrow>
                 let requiredRoleBinding = Getenv env ''ACCESS_ROLE'';
                     userAuthorized = CheckAccess selectedUser requiredRoleBinding crbs
                 in if \<not> userAuthorized then
                      Return (c_String 403
                        ''Access denied: You are not authorized to view this page.'')
                    else
                      (case ListRoleBindings K clientset of
                         Inl err \<Rightarrow> Return (c_String 500 ''Failed to list RoleBindings'')
                       | Inr rbs \<Rightarrow>
                           Return (c_HTML 200 ''home.html'' (H_Bindings crbs rbs)))))))
        | Some (Bool_val b) \<Rightarrow>
            Panic ''interface conversion: interface {} is bool, not string''
        | Some (Int_val i) \<Rightarrow>
            Panic ''interface conversion: interface {} is int, not string''
        | None \<Rightarrow>
            Panic ''interface conversion: interface {} is nil, not string'')"

section \<open>A concrete library and configuration\<close>

text \<open>
  The theorems below hold for every behaviour of the library calls. To run the handlers
  on concrete requests the calls need concrete values. \<open>StdEncoding_DecodeString\<close>
  follows \<^verbatim>\<open>encoding/base64\<close> of the Go standard library for the standard padded
  alphabet: input is consumed in quanta of four characters, line breaks are skipped, and
  at the first illegal character, misplaced padding, or incomplete final quantum the
  call returns the bytes of the quanta decoded before it together with the error (the
  byte offset that Go's error carries is left out).
\<close>

definition decodeMap :: "char \<Rightarrow> nat option" where
  "decodeMap c =
     (let n = (of_char c :: nat)
      in if 65 \<le> n \<and> n \<le> 90 then Some (n - 65)
         else if 97 \<le> n \<and> n \<le> 122 then Some (n - 71)
         else if 48 \<le> n \<and> n \<le> 57 then Some (n + 4)
         else if n = 43 then Some 62
         else if n = 47 then Some 63
         else None)"

definition assemble :: "nat list \<Rightarrow> bytes" where
  "assemble dbuf =
     (let d = dbuf @ replicate (4 - length dbuf) 0;
          val = d ! 0 * 262144 + d ! 1 * 4096 + d ! 2 * 64 + d ! 3
      in take (length dbuf - 1) [of_nat (val div 65536), of_nat (val div 256), of_nat val])"

fun skip_newlines :: "string \<Rightarrow> string" where
  "skip_newlines [] = []"
| "skip_newlines (c # cs) =
     (if c = CHR 0x0A \<or> c = CHR 0x0D then skip_newlines cs else c # cs)"

fun decode_loop :: "nat list \<Rightarrow> string \<Rightarrow> bytes \<times> CorruptInputError option" where
  "decode_loop dbuf [] = (if dbuf = [] then ([], None) else ([], Some CorruptInputError))"
| "decode_loop dbuf (c # src) =
     (case decodeMap c of
        Some out \<Rightarrow>
          if length dbuf = 3 then
            (case decode_loop [] src of (bs, err) \<Rightarrow> (assemble (dbuf @ [out]) @ bs, err))
          else decode_loop (dbuf @ [out]) src
      | None \<Rightarrow>
          if c = CHR 0x0A \<or> c = CHR 0x0D then decode_loop dbuf src
          else if c \<noteq> CHR ''='' then ([], Some CorruptInputError)
          else if length dbuf < 2 then ([], Some CorruptInputError)
          else if length dbuf = 2 then
            (case skip_newlines src of
               [] \<Rightarrow> ([], Some CorruptInputError)
             | d # src' \<Rightarrow>
                 if d \<noteq> CHR ''='' then ([], Some CorruptInputError)
                 else (assemble dbuf,
                       if skip_newlines src' = [] then None else Some CorruptInputError))
          else (assemble dbuf,
                if skip_newlines src = [] then None else Some CorruptInputError))"

definition StdEncoding_DecodeString :: "string \<Rightarrow> bytes \<times> CorruptInputError option" where
  "StdEncoding_DecodeString s = decode_loop [] s"

text \<open>\<^verbatim>\<open>[]byte(s)\<close>\<close>

definition bytes_of :: "string \<Rightarrow> bytes" where
  "bytes_of s = map (\<lambda>c. of_nat (of_char c)) s"

text \<open>
  A test double for the TLS stack and the network. It accepts one certificate with its
  key and one CA bundle (three placeholder byte strings standing for PEM data), rejects
  everything else with the errors \<^verbatim>\<open>crypto/tls\<close> gives for input without PEM data, and
  answers 200 at one URL.
\<close>

definition example_lib :: "(bytes \<times> bytes, bytes) lib" where
  "example_lib =
     \<lparr>DecodeString = StdEncoding_DecodeString,
      X509KeyPair = (\<lambda>certPEMBlock keyPEMBlock.
        if certPEMBlock \<noteq> bytes_of ''CRT'' then
          Inl ''tls: failed to find any PEM data in certificate input''
        else if keyPEMBlock \<noteq> bytes_of ''KEY'' then
          Inl ''tls: failed to find any PEM data in key input''
        else Inr (certPEMBlock, keyPEMBlock)),
      AppendCertsFromPEM = (\<lambda>pemCerts.
        if pemCerts = bytes_of ''CA1'' then Some pemCerts else None),
      Get = (\<lambda>tlsConfig url.
        if url = ''https://api.example:6443'' then Inr 200
        else Inl ''dial tcp: connection refused''),
      Save = (\<lambda>session. None)\<rparr>"

text \<open>
  A configuration with four contexts. \<open>prod\<close> is sound. \<open>nokey\<close> names a user whose
  key field holds the certificate again. \<open>trailing\<close> names a user whose certificate
  field is the base64 text of \<open>prod\<close>'s followed by an exclamation mark, which is not a
  base64 character. \<open>noca\<close> names a cluster whose CA field is not the accepted bundle.
\<close>

definition example_config :: KubeConfig where
  "example_config =
     \<lparr>Contexts =
        [\<lparr>ctx_Name = ''prod'', Context = \<lparr>ctx_Cluster = ''c1'', ctx_User = ''u1''\<rparr>\<rparr>,
         \<lparr>ctx_Name = ''nokey'', Context = \<lparr>ctx_Cluster = ''c1'', ctx_User = ''u2''\<rparr>\<rparr>,
         \<lparr>ctx_Name = ''trailing'', Context = \<lparr>ctx_Cluster = ''c1'', ctx_User = ''u3''\<rparr>\<rparr>,
         \<lparr>ctx_Name = ''noca'', Context = \<lparr>ctx_Cluster = ''c2'', ctx_User = ''u1''\<rparr>\<rparr>],
      Users =
        [\<lparr>user_Name = ''u1'',
          User = \<lparr>ClientCertificateData = ''Q1JU'', ClientKeyData = ''S0VZ''\<rparr>\<rparr>,
         \<lparr>user_Name = ''u2'',
          User = \<lparr>ClientCertificateData = ''Q1JU'', ClientKeyData = ''Q1JU''\<rparr>\<rparr>,
         \<lparr>user_Name = ''u3'',
          User = \<lparr>ClientCertificateData = ''Q1JU!'', ClientKeyData = ''S0VZ''\<rparr>\<rparr>],
      Clusters =
        [\<lparr>cluster_Name = ''c1'',
          Cluster = \<lparr>Server = ''https://api.example:6443'',
                     CertificateAuthorityData = ''Q0Ex''\<rparr>\<rparr>,
         \<lparr>cluster_Name = ''c2'',
          Cluster = \<lparr>Server = ''https://api.example:6443'',
                     CertificateAuthorityData = ''S0VZ''\<rparr>\<rparr>]\<rparr>"

definition example_server :: server where
  "example_server = \<lparr>kubeConfigBytes = Some (bytes_of ''contexts: ...''),
                      kubeConfig = example_config\<rparr>"

text \<open>The binding list of the scenario: \<open>alice\<close> is bound to \<open>cluster-admin\<close>.\<close>

definition example_bindings :: "ClusterRoleBinding list" where
  "example_bindings =
     [\<lparr>Subjects = [\<lparr>Kind = ''User'', subject_Name = ''alice''\<rparr>],
       RoleRef = \<lparr>roleRef_Name = ''cluster-admin''\<rparr>\<rparr>]"

text \<open>
  Two bindings, and the same two in the other order with the subjects of the first
  one swapped.
\<close>

definition ordered_bindings :: "ClusterRoleBinding list" where
  "ordered_bindings =
     [\<lparr>Subjects = [\<lparr>Kind = ''Group'', subject_Name = ''ops''\<rparr>,
                   \<lparr>Kind = ''User'', subject_Name = ''alice''\<rparr>],
       RoleRef = \<lparr>roleRef_Name = ''cluster-admin''\<rparr>\<rparr>,
      \<lparr>Subjects = [\<lparr>Kind = ''User'', subject_Name = ''bob''\<rparr>],
       RoleRef = \<lparr>roleRef_Name = ''view''\<rparr>\<rparr>]"

definition shuffled_bindings :: "ClusterRoleBinding list" where
  "shuffled_bindings =
     [\<lparr>Subjects = [\<lparr>Kind = ''User'', subject_Name = ''bob''\<rparr>],
       RoleRef = \<lparr>roleRef_Name = ''view''\<rparr>\<rparr>,
      \<lparr>Subjects = [\<lparr>Kind = ''User'', subject_Name = ''alice''\<rparr>,
                   \<lparr>Kind = ''Group'', subject_Name = ''ops''\<rparr>],
       RoleRef = \<lparr>roleRef_Name = ''cluster-admin''\<rparr>\<rparr>]"

text \<open>A binding whose role reference has the empty name.\<close>

definition unnamed_role_bindings :: "ClusterRoleBinding list" where
  "unnamed_role_bindings =
     [\<lparr>Subjects = [\<lparr>Kind = ''User'', subject_Name = ''alice''\<rparr>],
       RoleRef = \<lparr>roleRef_Name = ''''\<rparr>\<rparr>]"

text \<open>
  Test doubles for the remaining calls: a session store that cannot write the cookie
  (securecookie refuses a value that is too long), client-go calls that succeed and list
  the scenario's bindings, and a YAML parser that accepts one document.
\<close>

definition failing_save :: "session \<Rightarrow> string option" where
  "failing_save session = Some ''securecookie: the value is too long''"

definition example_k8s :: "(unit, unit, unit) k8s" where
  "example_k8s =
     \<lparr>NewClientConfigFromBytes = (\<lambda>configBytes. Inr ()),
      ClientConfig = (\<lambda>clientConfig. Inr ()),
      NewForConfig = (\<lambda>restConfig. Inr ()),
      ListClusterRoleBindings = (\<lambda>clientset. Inr example_bindings),
      ListRoleBindings = (\<lambda>clientset. Inr [])\<rparr>"

definition example_Unmarshal :: "bytes \<Rightarrow> string + KubeConfig" where
  "example_Unmarshal document =
     (if document = bytes_of ''contexts: ...'' then Inr example_config
      else Inl ''yaml: unmarshal errors'')"

text \<open>A request without a session cookie, and a process environment without variables.\<close>

definition no_session :: session where
  "no_session = Map.empty"

definition no_environ :: environ where
  "no_environ = Map.empty"

text \<open>A session that carries the flag and nothing else.\<close>

definition flag_only_session :: session where
  "flag_only_session = [''authenticated'' \<mapsto> Bool_val True]"

text \<open>
  \<^verbatim>\<open>client.Get\<close> of \<^verbatim>\<open>net/http\<close>, for a client without \<^verbatim>\<open>CheckRedirect\<close> such as the
  handler's: one call may send several requests. A response with status 301, 302, 303,
  307 or 308 and a \<^verbatim>\<open>Location\<close> header is followed by a request to that location; the
  default policy refuses the request that would follow ten earlier ones (``stopped after
  10 redirects''). The call returns the status of the last response, or the error, together
  with (here) the URLs it sent requests to. Locations are taken as absolute URLs, the
  header is the empty string when absent, and the wrapping of errors in \<^verbatim>\<open>url.Error\<close>
  is left out. \<open>RoundTrip\<close> is one exchange with the network.
\<close>

record http_Response =
  resp_StatusCode :: nat
  resp_Location :: string

definition shouldRedirect :: "nat \<Rightarrow> bool" where
  "shouldRedirect code =
     (code = 301 \<or> code = 302 \<or> code = 303 \<or> code = 307 \<or> code = 308)"

fun client_do ::
  "(string \<Rightarrow> string + http_Response) \<Rightarrow> nat \<Rightarrow> string \<Rightarrow> (string + nat) \<times> string list" where
  "client_do RoundTrip 0 url = (Inl ''stopped after 10 redirects'', [])"
| "client_do RoundTrip (Suc budget) url =
     (case RoundTrip url of
        Inl err \<Rightarrow> (Inl err, [url])
      | Inr resp \<Rightarrow>
          if shouldRedirect (resp_StatusCode resp) \<and> resp_Location resp \<noteq> ''''
          then (case client_do RoundTrip budget (resp_Location resp) of
                  (result, sent) \<Rightarrow> (result, url # sent))
          else (Inr (resp_StatusCode resp), [url]))"

definition http_Client_Get ::
  "(string \<Rightarrow> string + http_Response) \<Rightarrow> string \<Rightarrow> (string + nat) \<times> string list" where
  "http_Client_Get RoundTrip url = client_do RoundTrip 10 url"

text \<open>
  A network whose endpoint at the cluster's server URL answers 302 with a location that
  answers 200, and the library of above with \<^verbatim>\<open>Get\<close> running over this network.
\<close>

definition redirecting_RoundTrip :: "string \<Rightarrow> string + http_Response" where
  "redirecting_RoundTrip url =
     (if url = ''https://api.example:6443'' then
        Inr \<lparr>resp_StatusCode = 302, resp_Location = ''https://api.example:6443/version''\<rparr>
      else if url = ''https://api.example:6443/version'' then
        Inr \<lparr>resp_StatusCode = 200, resp_Location = ''''\<rparr>
      else Inl ''dial tcp: connection refused'')"

definition redirecting_lib :: "(bytes \<times> bytes, bytes) lib" where
  "redirecting_lib =
     example_lib\<lparr>Get := \<lambda>tlsConfig url. fst (http_Client_Get redirecting_RoundTrip url)\<rparr>"

text \<open>
  A configuration whose only context names an existing user and a cluster that is not in
  the clusters collection.
\<close>

definition orphan_server :: server where
  "orphan_server =
     \<lparr>kubeConfigBytes = Some (bytes_of ''contexts: ...''),
      kubeConfig = example_config\<lparr>Contexts :=
        [\<lparr>ctx_Name = ''orphan'',
          Context = \<lparr>ctx_Cluster = ''gone'', ctx_User = ''u1''\<rparr>\<rparr>]\<rparr>\<rparr>"

section \<open>Properties of the role check\<close>

lemma subjects_loop_iff:
  "subjects_loop u r crb ss f \<longleftrightarrow>
     f \<or> (roleRef_Name (RoleRef crb) = r \<and>
          (\<exists>s \<in> set ss. Kind s = ''User'' \<and> subject_Name s = u))"
  by (induction ss) auto

lemma items_loop_iff:
  "items_loop u r items f \<longleftrightarrow>
     f \<or> (\<exists>crb \<in> set items. roleRef_Name (RoleRef crb) = r \<and>
            (\<exists>s \<in> set (Subjects crb). Kind s = ''User'' \<and> subject_Name s = u))"
proof (induction items arbitrary: f)
  case Nil
  show ?case by simp
next
  case (Cons crb rest)
  show ?case
    by (simp add: Let_def Cons.IH subjects_loop_iff)
qed

lemma CheckAccess_iff:
  "CheckAccess u r items \<longleftrightarrow>
     (\<exists>crb \<in> set items. roleRef_Name (RoleRef crb) = r \<and>
        (\<exists>s \<in> set (Subjects crb). Kind s = ''User'' \<and> subject_Name s = u))"
  unfolding CheckAccess_def by (simp add: items_loop_iff)

text \<open>
  C1. The role check answers true exactly when some binding of the sequence names the
  required role and lists a subject of kind \<^verbatim>\<open>User\<close> whose name is the identity's; for
  a sequence without such a binding the answer is false.
\<close>

theorem CheckAccess_existential:
  "CheckAccess u r items \<longleftrightarrow>
     (\<exists>crb \<in> set items. roleRef_Name (RoleRef crb) = r \<and>
        (\<exists>s \<in> set (Subjects crb). Kind s = ''User'' \<and> subject_Name s = u))"
  by (rule CheckAccess_iff)

text \<open>The scenario: \<open>alice\<close> is authorized for \<open>cluster-admin\<close>, \<open>bob\<close> is not.\<close>

theorem CheckAccess_existential_witness:
  "CheckAccess ''alice'' ''cluster-admin'' example_bindings \<and>
   \<not> CheckAccess ''bob'' ''cluster-admin'' example_bindings"
  using CheckAccess_existential [of "''alice''" "''cluster-admin''" example_bindings]
        CheckAccess_existential [of "''bob''" "''cluster-admin''" example_bindings]
  by (simp add: example_bindings_def)

lemma matching_binding_reordered:
  assumes "list_all2 (\<lambda>crb crb'. RoleRef crb' = RoleRef crb \<and>
                        mset (Subjects crb') = mset (Subjects crb)) items items1"
  shows "(\<exists>crb \<in> set items. roleRef_Name (RoleRef crb) = r \<and>
            (\<exists>s \<in> set (Subjects crb). Kind s = ''User'' \<and> subject_Name s = u)) \<longleftrightarrow>
         (\<exists>crb \<in> set items1. roleRef_Name (RoleRef crb) = r \<and>
            (\<exists>s \<in> set (Subjects crb). Kind s = ''User'' \<and> subject_Name s = u))"
  using assms
proof (induction rule: list_all2_induct)
  case Nil
  show ?case by simp
next
  case (Cons crb items crb' items1)
  from Cons.hyps(1) have "set (Subjects crb') = set (Subjects crb)"
    by (auto dest: mset_eq_setD)
  with Cons.hyps(1) Cons.IH show ?case by simp
qed

text \<open>
  C7. The decision does not depend on the order of the bindings or of the subjects
  within a binding: when \<open>items1\<close> is \<open>items\<close> with the subjects of each binding
  reordered, and \<open>items'\<close> is a reordering of \<open>items1\<close>, the role check gives the same
  answer on \<open>items'\<close> as on \<open>items\<close>. Leaving the loops at the first match does not
  change the result.
\<close>

theorem CheckAccess_order_independent:
  assumes "list_all2 (\<lambda>crb crb'. RoleRef crb' = RoleRef crb \<and>
                        mset (Subjects crb') = mset (Subjects crb)) items items1"
    and "mset items' = mset items1"
  shows "CheckAccess u r items' = CheckAccess u r items"
proof -
  from assms(2) have "set items' = set items1" by (rule mset_eq_setD)
  then show ?thesis
    by (simp add: CheckAccess_iff matching_binding_reordered [OF assms(1)])
qed

theorem CheckAccess_order_independent_witness:
  "CheckAccess ''alice'' ''cluster-admin'' shuffled_bindings =
   CheckAccess ''alice'' ''cluster-admin'' ordered_bindings
   \<and> CheckAccess ''alice'' ''cluster-admin'' ordered_bindings"
proof -
  have 1: "list_all2 (\<lambda>crb crb'. RoleRef crb' = RoleRef crb \<and>
                        mset (Subjects crb') = mset (Subjects crb))
             ordered_bindings (rev shuffled_bindings)"
    by (simp add: ordered_bindings_def shuffled_bindings_def)
  have 2: "mset shuffled_bindings = mset (rev shuffled_bindings)"
    by simp
  have 3: "CheckAccess ''alice'' ''cluster-admin'' ordered_bindings"
    by (simp add: CheckAccess_def ordered_bindings_def)
  from CheckAccess_order_independent [OF 1 2, of "''alice''" "''cluster-admin''"] 3
  show ?thesis by simp
qed

text \<open>
  Without \<^verbatim>\<open>ACCESS_ROLE\<close> the required name is the empty string, and a binding whose
  role reference has the empty name then authorizes its subjects.
\<close>

theorem CheckAccess_absent_role_counterexample:
  "CheckAccess ''alice'' (Getenv no_environ ''ACCESS_ROLE'') unnamed_role_bindings"
  by (simp add: CheckAccess_def Getenv_def no_environ_def unnamed_role_bindings_def)

text \<open>
  C6 (amended). When the required-role variable is absent from the environment, the
  required role is the empty string: the role check answers true exactly when some
  binding whose role reference has the empty name lists the identity as a \<^verbatim>\<open>User\<close>
  subject. So authorization is denied for every identity and every binding sequence in
  which all role references have a non-empty name.
\<close>

theorem CheckAccess_absent_role:
  assumes "env ''ACCESS_ROLE'' = None"
  shows "(CheckAccess u (Getenv env ''ACCESS_ROLE'') items \<longleftrightarrow>
           (\<exists>crb \<in> set items. roleRef_Name (RoleRef crb) = '''' \<and>
              (\<exists>s \<in> set (Subjects crb). Kind s = ''User'' \<and> subject_Name s = u)))
       \<and> ((\<forall>crb \<in> set items. roleRef_Name (RoleRef crb) \<noteq> '''') \<longrightarrow>
            \<not> CheckAccess u (Getenv env ''ACCESS_ROLE'') items)"
  using assms by (auto simp add: CheckAccess_iff Getenv_def)

theorem CheckAccess_absent_role_witness:
  "no_environ ''ACCESS_ROLE'' = None \<and>
   map (\<lambda>crb. roleRef_Name (RoleRef crb)) example_bindings = [''cluster-admin''] \<and>
   \<not> CheckAccess ''alice'' (Getenv no_environ ''ACCESS_ROLE'') example_bindings"
proof -
  have 1: "no_environ ''ACCESS_ROLE'' = None" by (simp add: no_environ_def)
  have 2: "\<forall>crb \<in> set example_bindings. roleRef_Name (RoleRef crb) \<noteq> ''''"
    by (simp add: example_bindings_def)
  have 3: "map (\<lambda>crb. roleRef_Name (RoleRef crb)) example_bindings = [''cluster-admin'']"
    by (simp add: example_bindings_def)
  from CheckAccess_absent_role [where env = no_environ and u = "''alice''"
         and items = example_bindings] 1 2 3
  show ?thesis by simp
qed

section \<open>Evaluating the concrete library and configuration\<close>

lemma clear_upto:
  "n \<le> length b \<Longrightarrow> fold (\<lambda>i b. b[i := 0]) [0..<n] b = replicate n 0 @ drop n b"
proof (induction n)
  case 0
  show ?case by simp
next
  case (Suc n)
  then have n: "n < length b" by simp
  have "fold (\<lambda>i b. b[i := 0]) [0..<Suc n] b = (replicate n 0 @ drop n b)[n := 0]"
    using Suc by simp
  also have "\<dots> = replicate n 0 @ (drop n b)[0 := 0]"
    by (simp add: list_update_append)
  also have "drop n b = b ! n # drop (Suc n) b"
    using n by (simp add: Cons_nth_drop_Suc)
  finally show ?case by (simp add: replicate_app_Cons_same)
qed

lemma clear_zero: "clear b = replicate (length b) 0"
  by (simp add: clear_def clear_upto)

lemma length_bytes_of: "length (bytes_of s) = length s"
  by (simp add: bytes_of_def)

lemma decodeMap_examples:
  "decodeMap CHR ''Q'' = Some 16" "decodeMap CHR ''1'' = Some 53"
  "decodeMap CHR ''J'' = Some 9" "decodeMap CHR ''U'' = Some 20"
  "decodeMap CHR ''S'' = Some 18" "decodeMap CHR ''0'' = Some 52"
  "decodeMap CHR ''V'' = Some 21" "decodeMap CHR ''Z'' = Some 25"
  "decodeMap CHR ''E'' = Some 4" "decodeMap CHR ''x'' = Some 49"
  "decodeMap CHR ''!'' = None"
  by (simp_all add: decodeMap_def)

lemma DecodeString_examples:
  "StdEncoding_DecodeString ''Q1JU'' = (bytes_of ''CRT'', None)"
  "StdEncoding_DecodeString ''S0VZ'' = (bytes_of ''KEY'', None)"
  "StdEncoding_DecodeString ''Q0Ex'' = (bytes_of ''CA1'', None)"
  "StdEncoding_DecodeString ''Q1JU!'' = (bytes_of ''CRT'', Some CorruptInputError)"
  by (simp_all add: StdEncoding_DecodeString_def decodeMap_examples assemble_def bytes_of_def)

lemma example_lookups:
  "find_context (Contexts example_config) ''prod'' = (''u1'', ''c1'')"
  "find_context (Contexts example_config) ''nokey'' = (''u2'', ''c1'')"
  "find_context (Contexts example_config) ''trailing'' = (''u3'', ''c1'')"
  "find_context (Contexts example_config) ''noca'' = (''u1'', ''c2'')"
  "find_context (Contexts example_config) ''dev'' = ('''', '''')"
  "find_user StdEncoding_DecodeString (Users example_config) ''u1''
     = (bytes_of ''CRT'', bytes_of ''KEY'')"
  "find_user StdEncoding_DecodeString (Users example_config) ''u2''
     = (bytes_of ''CRT'', bytes_of ''CRT'')"
  "find_user StdEncoding_DecodeString (Users example_config) ''u3''
     = (bytes_of ''CRT'', bytes_of ''KEY'')"
  "find_user StdEncoding_DecodeString (Users example_config) '''' = ([], [])"
  "find_cluster StdEncoding_DecodeString (Clusters example_config) ''c1''
     = (bytes_of ''CA1'', ''https://api.example:6443'')"
  "find_cluster StdEncoding_DecodeString (Clusters example_config) ''c2''
     = (bytes_of ''KEY'', ''https://api.example:6443'')"
  "find_cluster StdEncoding_DecodeString (Clusters example_config) '''' = ([], '''')"
  by (simp_all add: example_config_def DecodeString_examples)

lemma example_server_loaded:
  "kubeConfigBytes example_server \<noteq> None" "Contexts example_config \<noteq> []"
  "kubeConfig example_server = example_config"
  by (simp_all add: example_server_def example_config_def)

lemma example_lib_fields:
  "DecodeString example_lib = StdEncoding_DecodeString"
  "X509KeyPair example_lib (bytes_of ''CRT'') (bytes_of ''KEY'')
     = Inr (bytes_of ''CRT'', bytes_of ''KEY'')"
  "X509KeyPair example_lib (bytes_of ''CRT'') (bytes_of ''CRT'')
     = Inl ''tls: failed to find any PEM data in key input''"
  "X509KeyPair example_lib [] []
     = Inl ''tls: failed to find any PEM data in certificate input''"
  "AppendCertsFromPEM example_lib (bytes_of ''CA1'') = Some (bytes_of ''CA1'')"
  "AppendCertsFromPEM example_lib (bytes_of ''KEY'') = None"
  "Get example_lib cfg ''https://api.example:6443'' = Inr 200"
  "Save example_lib s = None"
  by (simp_all add: example_lib_def bytes_of_def)

lemma redirected_Get:
  "http_Client_Get redirecting_RoundTrip ''https://api.example:6443''
     = (Inr 200, [''https://api.example:6443'', ''https://api.example:6443/version''])"
  by (simp add: http_Client_Get_def eval_nat_numeral redirecting_RoundTrip_def
        shouldRedirect_def)

lemma redirecting_lib_fields:
  "DecodeString redirecting_lib = StdEncoding_DecodeString"
  "X509KeyPair redirecting_lib = X509KeyPair example_lib"
  "AppendCertsFromPEM redirecting_lib = AppendCertsFromPEM example_lib"
  "Get redirecting_lib cfg ''https://api.example:6443'' = Inr 200"
  "Save redirecting_lib = Save example_lib"
  by (simp_all add: redirecting_lib_def redirected_Get example_lib_fields)

lemma orphan_server_facts:
  "kubeConfigBytes orphan_server \<noteq> None"
  "Contexts (kubeConfig orphan_server) \<noteq> []"
  "find_context (Contexts (kubeConfig orphan_server)) ''orphan'' = (''u1'', ''gone'')"
  "Users (kubeConfig orphan_server) = Users example_config"
  "Clusters (kubeConfig orphan_server) = Clusters example_config"
  "find_cluster StdEncoding_DecodeString (Clusters example_config) ''gone'' = ([], '''')"
  "''gone'' \<notin> set (map cluster_Name (Clusters example_config))"
  "AppendCertsFromPEM example_lib [] = None"
  by (simp_all add: orphan_server_def example_config_def example_lib_def bytes_of_def)

section \<open>Properties of context selection with mutual TLS\<close>

subsection \<open>Zeroing of the decoded buffers\<close>

text \<open>
  On the exits that follow the probe (redirect and 401) the three buffers hold only zero
  bytes.
\<close>

lemma cleared_after_probe:
  assumes "probes (select_context L srv sel sess) \<noteq> []"
  shows "set (clientCert (plaintext (select_context L srv sel sess))) \<subseteq> {0}
       \<and> set (clientKey (plaintext (select_context L srv sel sess))) \<subseteq> {0}
       \<and> set (caCert (plaintext (select_context L srv sel sess))) \<subseteq> {0}"
  using assms
  by (auto simp add: select_context_def tls_out_def Let_def clear_zero
        split: prod.splits sum.splits option.splits if_splits)

text \<open>
  C2. The claim asks for zeroed buffers on every exit path. The handler returns before
  its zeroing loops on two of them. For the context \<open>nokey\<close> the key pair is rejected:
  the response is 500 and all three buffers still hold the decoded data. For the context
  \<open>noca\<close> the CA data is rejected: the response is 500, certificate and key are zeroed,
  and the CA buffer still holds the decoded data.
\<close>

theorem early_return_leaves_plaintext:
  "response (select_context example_lib example_server ''nokey'' no_session) =
     c_String 500
       ''Failed to load client key pair: tls: failed to find any PEM data in key input''
   \<and> plaintext (select_context example_lib example_server ''nokey'' no_session) =
     \<lparr>clientCert = bytes_of ''CRT'', clientKey = bytes_of ''CRT'', caCert = bytes_of ''CA1''\<rparr>
   \<and> response (select_context example_lib example_server ''noca'' no_session) =
     c_String 500 ''Failed to append CA certificate to pool''
   \<and> plaintext (select_context example_lib example_server ''noca'' no_session) =
     \<lparr>clientCert = [0, 0, 0], clientKey = [0, 0, 0], caCert = bytes_of ''KEY''\<rparr>"
  by (simp add: select_context_def example_server_loaded example_lookups example_lib_fields
        tls_out_def clear_zero length_bytes_of Let_def)

subsection \<open>Decoding errors\<close>

lemma find_user_ignores_error:
  "find_user (\<lambda>s. (fst (decode s), None)) users u = find_user decode users u"
  by (induction users) simp_all

lemma find_cluster_ignores_error:
  "find_cluster (\<lambda>s. (fst (decode s), None)) clusters c = find_cluster decode clusters c"
  by (induction clusters) simp_all

text \<open>
  The certificate field of the third user is not valid base64, the context \<open>trailing\<close>
  selects that user, and the request is answered with the redirect to the protected page.
\<close>

theorem decode_error_counterexample:
  "snd (DecodeString example_lib (ClientCertificateData (User (Users example_config ! 2))))
     = Some CorruptInputError
   \<and> find_context (Contexts example_config) ''trailing''
     = (user_Name (Users example_config ! 2), ''c1'')
   \<and> response (select_context example_lib example_server ''trailing'' no_session)
     = c_Redirect 302 ''/home''"
proof -
  have "Users example_config ! 2 =
          \<lparr>user_Name = ''u3'',
           User = \<lparr>ClientCertificateData = ''Q1JU!'', ClientKeyData = ''S0VZ''\<rparr>\<rparr>"
    by (simp add: example_config_def)
  moreover
  have "response (select_context example_lib example_server ''trailing'' no_session)
          = c_Redirect 302 ''/home''"
    by (simp add: select_context_def example_server_loaded example_lookups
          example_lib_fields tls_out_def Let_def)
  ultimately show ?thesis
    by (simp add: example_lib_fields DecodeString_examples example_lookups)
qed

text \<open>
  C3 (amended). A field that is not valid base64 does not make the handler fail with a
  decode error. The error is discarded and the handler goes on with the bytes that the
  decoder returned: its whole outcome is the one it has with a decoder that returns the
  same bytes and never an error. With a configuration loaded, the answer is an internal
  error (500) exactly when key-pair construction or CA-pool construction rejects those
  bytes.
\<close>

theorem decode_error_discarded:
  "select_context (L\<lparr>DecodeString := \<lambda>s. (fst (DecodeString L s), None)\<rparr>) srv sel sess
     = select_context L srv sel sess
   \<and> (status (response (select_context L srv sel sess)) = 500 \<longleftrightarrow>
        kubeConfigBytes srv \<noteq> None \<and> Contexts (kubeConfig srv) \<noteq> [] \<and>
        (case find_context (Contexts (kubeConfig srv)) sel of
           (selectedUser, selectedCluster) \<Rightarrow>
         case find_user (DecodeString L) (Users (kubeConfig srv)) selectedUser of
           (cert, key) \<Rightarrow>
         case find_cluster (DecodeString L) (Clusters (kubeConfig srv)) selectedCluster of
           (ca, clusterServer) \<Rightarrow>
             isl (X509KeyPair L cert key) \<or> AppendCertsFromPEM L ca = None))"
proof -
  have "select_context (L\<lparr>DecodeString := \<lambda>s. (fst (DecodeString L s), None)\<rparr>) srv sel sess
          = select_context L srv sel sess"
    by (simp add: select_context_def find_user_ignores_error find_cluster_ignores_error
          Let_def split: prod.splits sum.splits option.splits)
  moreover
  have "status (response (select_context L srv sel sess)) = 500 \<longleftrightarrow>
        kubeConfigBytes srv \<noteq> None \<and> Contexts (kubeConfig srv) \<noteq> [] \<and>
        (case find_context (Contexts (kubeConfig srv)) sel of
           (selectedUser, selectedCluster) \<Rightarrow>
         case find_user (DecodeString L) (Users (kubeConfig srv)) selectedUser of
           (cert, key) \<Rightarrow>
         case find_cluster (DecodeString L) (Clusters (kubeConfig srv)) selectedCluster of
           (ca, clusterServer) \<Rightarrow>
             isl (X509KeyPair L cert key) \<or> AppendCertsFromPEM L ca = None)"
    by (auto simp add: select_context_def tls_out_def Let_def
          split: prod.splits sum.splits option.splits)
  ultimately show ?thesis by (rule conjI)
qed

subsection \<open>Names that are not in the configuration\<close>

lemma find_context_absent:
  "sel \<notin> set (map ctx_Name ctxs) \<Longrightarrow> find_context ctxs sel = ('''', '''')"
  by (induction ctxs) auto

lemma find_user_absent:
  "u \<notin> set (map user_Name users) \<Longrightarrow> find_user decode users u = ([], [])"
  by (induction users) auto

lemma find_cluster_absent:
  "c \<notin> set (map cluster_Name clusters) \<Longrightarrow> find_cluster decode clusters c = ([], '''')"
  by (induction clusters) auto

lemma select_context_400:
  "status (response (select_context L srv sel sess)) = 400 \<longleftrightarrow>
     kubeConfigBytes srv = None \<or> Contexts (kubeConfig srv) = []"
  by (simp add: select_context_def tls_out_def Let_def
        split: prod.splits sum.splits option.splits)

text \<open>
  The configuration has no context \<open>dev\<close>; selecting it is answered with the internal
  error of the key-pair step.
\<close>

theorem absent_context_counterexample:
  "''dev'' \<notin> set (map ctx_Name (Contexts (kubeConfig example_server)))
   \<and> response (select_context example_lib example_server ''dev'' no_session) =
       c_String 500
         ''Failed to load client key pair: tls: failed to find any PEM data in certificate input''"
proof -
  have "''dev'' \<notin> set (map ctx_Name (Contexts (kubeConfig example_server)))"
    by (simp add: example_server_def example_config_def)
  moreover
  have "response (select_context example_lib example_server ''dev'' no_session) =
       c_String 500
         ''Failed to load client key pair: tls: failed to find any PEM data in certificate input''"
    by (simp add: select_context_def example_server_loaded example_lookups
          example_lib_fields tls_out_def Let_def)
  ultimately show ?thesis by simp
qed

text \<open>
  C4 (amended). No lookup fails, and with a configuration loaded that has at least one
  context the answer is never a bad request. A context name that is not in the contexts
  collection makes the user and cluster references the empty string; a user name that is
  not in the users collection makes the certificate and key buffers empty; a cluster name
  that is not in the clusters collection makes the CA buffer and the server URL empty.
  The handler's response is the one its remaining steps give on these values: 500
  (``Failed to load client key pair'') when key-pair construction rejects the buffers,
  otherwise 500 (``Failed to append CA certificate to pool'') when CA-pool construction
  rejects the CA buffer, otherwise 401 when the probe of the server URL fails, otherwise
  the redirect to the protected page. The bad-request answer (400) is given exactly when
  no configuration was read or the contexts collection is empty.
\<close>

theorem absent_names_fall_through:
  "(status (response (select_context L srv sel sess)) = 400 \<longleftrightarrow>
      kubeConfigBytes srv = None \<or> Contexts (kubeConfig srv) = [])
   \<and> (kubeConfigBytes srv \<noteq> None \<and> Contexts (kubeConfig srv) \<noteq> []
       \<and> find_context (Contexts (kubeConfig srv)) sel = (selectedUser, selectedCluster)
       \<and> find_user (DecodeString L) (Users (kubeConfig srv)) selectedUser = (cert, key)
       \<and> find_cluster (DecodeString L) (Clusters (kubeConfig srv)) selectedCluster
           = (ca, clusterServer)
       \<longrightarrow>
         (sel \<notin> set (map ctx_Name (Contexts (kubeConfig srv))) \<longrightarrow>
            selectedUser = '''' \<and> selectedCluster = '''')
       \<and> (selectedUser \<notin> set (map user_Name (Users (kubeConfig srv))) \<longrightarrow>
            cert = [] \<and> key = [])
       \<and> (selectedCluster \<notin> set (map cluster_Name (Clusters (kubeConfig srv))) \<longrightarrow>
            ca = [] \<and> clusterServer = '''')
       \<and> response (select_context L srv sel sess) =
           (case X509KeyPair L cert key of
              Inl err \<Rightarrow> c_String 500 (''Failed to load client key pair: '' @ err)
            | Inr clientCertPair \<Rightarrow>
                (case AppendCertsFromPEM L ca of
                   None \<Rightarrow> c_String 500 ''Failed to append CA certificate to pool''
                 | Some caCertPool \<Rightarrow>
                     (case Get L \<lparr>Certificates = [clientCertPair], RootCAs = caCertPool,
                                  ClientCAs = caCertPool,
                                  ClientAuth = RequireAndVerifyClientCert\<rparr> clusterServer of
                        Inl err \<Rightarrow> c_String 401 (''Authentication failed: '' @ err)
                      | Inr code \<Rightarrow>
                          if code = 200 then c_Redirect 302 ''/home''
                          else c_String 401 ''Authentication failed: <nil>''))))"
proof -
  have "kubeConfigBytes srv \<noteq> None \<and> Contexts (kubeConfig srv) \<noteq> []
       \<and> find_context (Contexts (kubeConfig srv)) sel = (selectedUser, selectedCluster)
       \<and> find_user (DecodeString L) (Users (kubeConfig srv)) selectedUser = (cert, key)
       \<and> find_cluster (DecodeString L) (Clusters (kubeConfig srv)) selectedCluster
           = (ca, clusterServer)
       \<longrightarrow> response (select_context L srv sel sess) =
           (case X509KeyPair L cert key of
              Inl err \<Rightarrow> c_String 500 (''Failed to load client key pair: '' @ err)
            | Inr clientCertPair \<Rightarrow>
                (case AppendCertsFromPEM L ca of
                   None \<Rightarrow> c_String 500 ''Failed to append CA certificate to pool''
                 | Some caCertPool \<Rightarrow>
                     (case Get L \<lparr>Certificates = [clientCertPair], RootCAs = caCertPool,
                                  ClientCAs = caCertPool,
                                  ClientAuth = RequireAndVerifyClientCert\<rparr> clusterServer of
                        Inl err \<Rightarrow> c_String 401 (''Authentication failed: '' @ err)
                      | Inr code \<Rightarrow>
                          if code = 200 then c_Redirect 302 ''/home''
                          else c_String 401 ''Authentication failed: <nil>'')))"
    by (simp add: select_context_def tls_out_def Let_def split: sum.splits option.splits)
  moreover
  have "find_context (Contexts (kubeConfig srv)) sel = (selectedUser, selectedCluster)
      \<longrightarrow> sel \<notin> set (map ctx_Name (Contexts (kubeConfig srv)))
      \<longrightarrow> selectedUser = '''' \<and> selectedCluster = ''''"
    using find_context_absent [of sel "Contexts (kubeConfig srv)"] by auto
  moreover
  have "find_user (DecodeString L) (Users (kubeConfig srv)) selectedUser = (cert, key)
      \<longrightarrow> selectedUser \<notin> set (map user_Name (Users (kubeConfig srv)))
      \<longrightarrow> cert = [] \<and> key = []"
    using find_user_absent [of selectedUser "Users (kubeConfig srv)" "DecodeString L"]
    by auto
  moreover
  have "find_cluster (DecodeString L) (Clusters (kubeConfig srv)) selectedCluster
           = (ca, clusterServer)
      \<longrightarrow> selectedCluster \<notin> set (map cluster_Name (Clusters (kubeConfig srv)))
      \<longrightarrow> ca = [] \<and> clusterServer = ''''"
    using find_cluster_absent [of selectedCluster "Clusters (kubeConfig srv)" "DecodeString L"]
    by auto
  ultimately show ?thesis
    using select_context_400 [of L srv sel sess] by blast
qed

text \<open>
  Two requests: the absent context \<open>dev\<close>, whose empty user reference names no user, so
  that the key-pair step gets empty buffers and rejects them; and the context \<open>orphan\<close>,
  whose user exists and whose cluster does not, so that the CA-pool step gets an empty
  buffer and rejects it.
\<close>

theorem absent_names_fall_through_witness:
  "''dev'' \<notin> set (map ctx_Name (Contexts (kubeConfig example_server)))
   \<and> '''' \<notin> set (map user_Name (Users (kubeConfig example_server)))
   \<and> response (select_context example_lib example_server ''dev'' no_session) =
       c_String 500
         ''Failed to load client key pair: tls: failed to find any PEM data in certificate input''
   \<and> status (response (select_context example_lib example_server ''dev'' no_session)) \<noteq> 400
   \<and> ''gone'' \<notin> set (map cluster_Name (Clusters (kubeConfig orphan_server)))
   \<and> response (select_context example_lib orphan_server ''orphan'' no_session) =
       c_String 500 ''Failed to append CA certificate to pool''"
proof -
  have 1: "''dev'' \<notin> set (map ctx_Name (Contexts (kubeConfig example_server)))"
    and 2: "'''' \<notin> set (map user_Name (Users (kubeConfig example_server)))"
    and 3: "''gone'' \<notin> set (map cluster_Name (Clusters (kubeConfig orphan_server)))"
    by (simp_all add: example_server_loaded orphan_server_facts)
       (simp_all add: example_config_def)
  have 4: "kubeConfigBytes example_server \<noteq> None \<and> Contexts (kubeConfig example_server) \<noteq> []
       \<and> find_context (Contexts (kubeConfig example_server)) ''dev'' = ('''', '''')
       \<and> find_user (DecodeString example_lib) (Users (kubeConfig example_server)) ''''
           = ([], [])
       \<and> find_cluster (DecodeString example_lib) (Clusters (kubeConfig example_server)) ''''
           = ([], '''')"
    by (simp add: example_server_loaded example_lookups example_lib_fields)
  have 5: "kubeConfigBytes orphan_server \<noteq> None \<and> Contexts (kubeConfig orphan_server) \<noteq> []
       \<and> find_context (Contexts (kubeConfig orphan_server)) ''orphan'' = (''u1'', ''gone'')
       \<and> find_user (DecodeString example_lib) (Users (kubeConfig orphan_server)) ''u1''
           = (bytes_of ''CRT'', bytes_of ''KEY'')
       \<and> find_cluster (DecodeString example_lib) (Clusters (kubeConfig orphan_server)) ''gone''
           = ([], '''')"
    by (simp add: orphan_server_facts example_lookups example_lib_fields)
  from 4 absent_names_fall_through
         [where L = example_lib and srv = example_server and sel = "''dev''"
            and sess = no_session and selectedUser = "''''" and selectedCluster = "''''"
            and cert = "[]" and key = "[]" and ca = "[]" and clusterServer = "''''"]
  have a: "response (select_context example_lib example_server ''dev'' no_session) =
       c_String 500
         ''Failed to load client key pair: tls: failed to find any PEM data in certificate input''
     \<and> status (response (select_context example_lib example_server ''dev'' no_session)) \<noteq> 400"
    by (simp add: example_lib_fields)
  from 5 absent_names_fall_through
         [where L = example_lib and srv = orphan_server and sel = "''orphan''"
            and sess = no_session and selectedUser = "''u1''" and selectedCluster = "''gone''"
            and cert = "bytes_of ''CRT''" and key = "bytes_of ''KEY''" and ca = "[]"
            and clusterServer = "''''"]
  have b: "response (select_context example_lib orphan_server ''orphan'' no_session) =
       c_String 500 ''Failed to append CA certificate to pool''"
    by (simp add: example_lib_fields orphan_server_facts)
  from 1 2 3 a b show ?thesis by simp
qed

subsection \<open>The probe\<close>

text \<open>
  The endpoint answers the first request with 302, the client follows the location, the
  second request is answered with 200, and the handler answers with the redirect to the
  protected page: two requests were sent, and the status 302 of the first was not treated
  as a failure.
\<close>

theorem redirected_probe_counterexample:
  "redirecting_RoundTrip ''https://api.example:6443''
     = Inr \<lparr>resp_StatusCode = 302, resp_Location = ''https://api.example:6443/version''\<rparr>
   \<and> http_Client_Get redirecting_RoundTrip ''https://api.example:6443''
     = (Inr 200, [''https://api.example:6443'', ''https://api.example:6443/version''])
   \<and> response (select_context redirecting_lib example_server ''prod'' no_session)
     = c_Redirect 302 ''/home''"
proof -
  have "response (select_context redirecting_lib example_server ''prod'' no_session)
     = c_Redirect 302 ''/home''"
    by (simp add: select_context_def example_server_loaded example_lookups
          redirecting_lib_fields example_lib_fields tls_out_def Let_def)
  then show ?thesis
    by (simp add: redirected_Get) (simp add: redirecting_RoundTrip_def)
qed

text \<open>
  C5 (amended). Once the key pair and the CA pool are built, the handler calls
  \<^verbatim>\<open>client.Get\<close> once, on the server URL of the selected cluster, and does not call it
  again. The result of that call decides: an error, or a returned response whose status
  is not 200, is answered with 401 and leaves the session as it was, with nothing written
  to the cookie; only a returned status of 200 is answered with the redirect to the
  protected page and marks the session authenticated. With a client that follows
  redirects, the deciding result is the one the client ends with: the handler redirects
  to the protected page exactly when that final result is status 200.
\<close>

theorem probe_decides:
  assumes "kubeConfigBytes srv \<noteq> None" and "Contexts (kubeConfig srv) \<noteq> []"
    and "find_context (Contexts (kubeConfig srv)) sel = (selectedUser, selectedCluster)"
    and "find_user (DecodeString L) (Users (kubeConfig srv)) selectedUser = (cert, key)"
    and "find_cluster (DecodeString L) (Clusters (kubeConfig srv)) selectedCluster
           = (ca, clusterServer)"
    and "X509KeyPair L cert key = Inr clientCertPair"
    and "AppendCertsFromPEM L ca = Some caCertPool"
    and "tlsConfig = \<lparr>Certificates = [clientCertPair], RootCAs = caCertPool,
                       ClientCAs = caCertPool, ClientAuth = RequireAndVerifyClientCert\<rparr>"
  shows "probes (select_context L srv sel sess) = [clusterServer]
    \<and> (Get L tlsConfig clusterServer \<noteq> Inr 200 \<longrightarrow>
          status (response (select_context L srv sel sess)) = 401
          \<and> session_mem (select_context L srv sel sess) = sess
          \<and> cookie (select_context L srv sel sess) = None)
    \<and> (Get L tlsConfig clusterServer = Inr 200 \<longrightarrow>
          response (select_context L srv sel sess) = c_Redirect 302 ''/home''
          \<and> session_mem (select_context L srv sel sess) =
              sess(''authenticated'' \<mapsto> Bool_val True))
    \<and> (Get L tlsConfig clusterServer = fst (http_Client_Get RoundTrip clusterServer) \<longrightarrow>
          (response (select_context L srv sel sess) = c_Redirect 302 ''/home'' \<longleftrightarrow>
             fst (http_Client_Get RoundTrip clusterServer) = Inr 200))"
  using assms
  by (auto simp add: select_context_def tls_out_def Let_def split: sum.splits)

theorem probe_decides_witness:
  "probes (select_context example_lib example_server ''prod'' no_session)
     = [''https://api.example:6443'']
   \<and> response (select_context example_lib example_server ''prod'' no_session)
     = c_Redirect 302 ''/home''
   \<and> session_mem (select_context example_lib example_server ''prod'' no_session)
       ''authenticated'' = Some (Bool_val True)
   \<and> probes (select_context redirecting_lib example_server ''prod'' no_session)
     = [''https://api.example:6443'']
   \<and> response (select_context redirecting_lib example_server ''prod'' no_session)
     = c_Redirect 302 ''/home''"
proof -
  have 1: "kubeConfigBytes example_server \<noteq> None"
    and 2: "Contexts (kubeConfig example_server) \<noteq> []"
    and 3: "find_context (Contexts (kubeConfig example_server)) ''prod'' = (''u1'', ''c1'')"
    and 4: "find_user (DecodeString example_lib) (Users (kubeConfig example_server)) ''u1''
              = (bytes_of ''CRT'', bytes_of ''KEY'')"
    and 5: "find_cluster (DecodeString example_lib) (Clusters (kubeConfig example_server))
              ''c1'' = (bytes_of ''CA1'', ''https://api.example:6443'')"
    and 6: "X509KeyPair example_lib (bytes_of ''CRT'') (bytes_of ''KEY'')
              = Inr (bytes_of ''CRT'', bytes_of ''KEY'')"
    and 7: "AppendCertsFromPEM example_lib (bytes_of ''CA1'') = Some (bytes_of ''CA1'')"
    by (simp_all add: example_server_loaded example_lookups example_lib_fields)
  have r4: "find_user (DecodeString redirecting_lib) (Users (kubeConfig example_server)) ''u1''
              = (bytes_of ''CRT'', bytes_of ''KEY'')"
    and r5: "find_cluster (DecodeString redirecting_lib) (Clusters (kubeConfig example_server))
              ''c1'' = (bytes_of ''CA1'', ''https://api.example:6443'')"
    and r6: "X509KeyPair redirecting_lib (bytes_of ''CRT'') (bytes_of ''KEY'')
              = Inr (bytes_of ''CRT'', bytes_of ''KEY'')"
    and r7: "AppendCertsFromPEM redirecting_lib (bytes_of ''CA1'') = Some (bytes_of ''CA1'')"
    by (simp_all add: example_server_loaded example_lookups example_lib_fields
          redirecting_lib_fields)
  from probe_decides [OF 1 2 3 4 5 6 7 refl, of no_session]
       probe_decides [OF 1 2 3 r4 r5 r6 r7 refl, of no_session]
  show ?thesis by (simp add: example_lib_fields redirecting_lib_fields)
qed

section \<open>Properties of startup\<close>

text \<open>
  C8. When reading the configuration file fails, startup goes on without configuration:
  the server runs, the start page answers 200 with the no-configuration message, and
  context selection (in both variants) answers 400 with its no-configuration message.
  When the file was read and parsing it fails, startup ends in \<^verbatim>\<open>log.Fatalf\<close>.
\<close>

theorem startup_degraded_or_fatal:
  "(snd readFile \<noteq> None \<longrightarrow>
      (\<exists>srv. main Unmarshal readFile = Serving srv
         \<and> index srv = c_String 200
             ''No kubeconfig found or no contexts available. Application running without kubeconfig.''
         \<and> response (select_context L srv sel sess) =
             c_String 400 ''No kubeconfig file or contexts available to select.''
         \<and> response (select_context_rb save srv sel sess) =
             c_String 400 ''No kubeconfig file or contexts available to select.''))
   \<and> (snd readFile = None \<and> fst readFile = Some document \<and> Unmarshal document = Inl err
        \<longrightarrow> main Unmarshal readFile = Fatalf (''Failed to parse kubeconfig: '' @ err))"
  by (simp add: main_def index_def select_context_def select_context_rb_def tls_out_def)

theorem startup_degraded_or_fatal_witness:
  "main example_Unmarshal (None, Some ''open /root/.kube/config: no such file or directory'')
     = Serving \<lparr>kubeConfigBytes = None,
                kubeConfig = \<lparr>Contexts = [], Users = [], Clusters = []\<rparr>\<rparr>
   \<and> main example_Unmarshal (Some (bytes_of ''contexts: [''), None)
     = Fatalf ''Failed to parse kubeconfig: yaml: unmarshal errors''"
proof -
  have 1: "snd (None :: bytes option,
                Some ''open /root/.kube/config: no such file or directory'') \<noteq> None"
    by simp
  have 2: "snd (Some (bytes_of ''contexts: [''), None :: string option) = None
     \<and> fst (Some (bytes_of ''contexts: [''), None :: string option)
         = Some (bytes_of ''contexts: ['')
     \<and> example_Unmarshal (bytes_of ''contexts: ['') = Inl ''yaml: unmarshal errors''"
    by (simp add: example_Unmarshal_def bytes_of_def)
  from 1 startup_degraded_or_fatal
         [where readFile = "(None, Some ''open /root/.kube/config: no such file or directory'')"
            and Unmarshal = example_Unmarshal and L = example_lib and sel = "''prod''"
            and sess = no_session and save = failing_save]
  have a: "\<exists>srv. main example_Unmarshal
              (None, Some ''open /root/.kube/config: no such file or directory'') = Serving srv
            \<and> response (select_context example_lib srv ''prod'' no_session) =
                c_String 400 ''No kubeconfig file or contexts available to select.''"
    by blast
  from 2 startup_degraded_or_fatal
         [where readFile = "(Some (bytes_of ''contexts: [''), None)"
            and Unmarshal = example_Unmarshal and document = "bytes_of ''contexts: [''"
            and err = "''yaml: unmarshal errors''"]
  have b: "main example_Unmarshal (Some (bytes_of ''contexts: [''), None)
     = Fatalf ''Failed to parse kubeconfig: yaml: unmarshal errors''"
    by simp
  from a b show ?thesis by (auto simp add: main_def)
qed

section \<open>Properties of the role-binding variant's handlers\<close>

text \<open>
  With a store that cannot write the cookie, a request for the existing context \<open>prod\<close>
  is answered with 500 and no cookie, while the configuration is loaded and has four
  contexts.
\<close>

theorem save_failure_counterexample:
  "kubeConfigBytes example_server \<noteq> None
   \<and> length (Contexts (kubeConfig example_server)) = 4
   \<and> response (select_context_rb failing_save example_server ''prod'' no_session)
       = c_String 500 ''Failed to save session''
   \<and> cookie (select_context_rb failing_save example_server ''prod'' no_session) = None"
  by (simp add: select_context_rb_def example_server_loaded example_lookups failing_save_def
        Let_def) (simp add: example_config_def)

text \<open>
  C9 (amended). While a configuration with at least one context is loaded, context
  selection in the role-binding variant sets \<open>authenticated\<close> to true and stores the user
  and cluster names of the first context with the submitted name in the session, without
  issuing any request. When saving the session succeeds it redirects to the protected
  page and the cookie carries that session; when saving fails it answers 500 and writes
  no cookie. When the submitted name matches no context, the stored user and cluster
  names are the empty string.
\<close>

theorem select_context_rb_no_probe:
  assumes "kubeConfigBytes srv \<noteq> None" and "Contexts (kubeConfig srv) \<noteq> []"
  shows "session_mem (select_context_rb save srv sel sess) ''authenticated''
        = Some (Bool_val True)
    \<and> session_mem (select_context_rb save srv sel sess) ''user''
        = Some (String_val (fst (find_context (Contexts (kubeConfig srv)) sel)))
    \<and> session_mem (select_context_rb save srv sel sess) ''cluster''
        = Some (String_val (snd (find_context (Contexts (kubeConfig srv)) sel)))
    \<and> probes (select_context_rb save srv sel sess) = []
    \<and> (save (session_mem (select_context_rb save srv sel sess)) = None \<longrightarrow>
         response (select_context_rb save srv sel sess) = c_Redirect 302 ''/home''
         \<and> cookie (select_context_rb save srv sel sess)
             = Some (session_mem (select_context_rb save srv sel sess)))
    \<and> (save (session_mem (select_context_rb save srv sel sess)) \<noteq> None \<longrightarrow>
         response (select_context_rb save srv sel sess)
           = c_String 500 ''Failed to save session''
         \<and> cookie (select_context_rb save srv sel sess) = None)
    \<and> (sel \<notin> set (map ctx_Name (Contexts (kubeConfig srv))) \<longrightarrow>
         session_mem (select_context_rb save srv sel sess) ''user'' = Some (String_val '''')
         \<and> session_mem (select_context_rb save srv sel sess) ''cluster''
             = Some (String_val ''''))"
  using assms
  by (auto simp add: select_context_rb_def Let_def find_context_absent
        split: prod.splits option.splits)

theorem select_context_rb_no_probe_witness:
  "response (select_context_rb (Save example_lib) example_server ''dev'' no_session)
       = c_Redirect 302 ''/home''
   \<and> probes (select_context_rb (Save example_lib) example_server ''dev'' no_session) = []
   \<and> cookie (select_context_rb (Save example_lib) example_server ''dev'' no_session)
       = Some [''authenticated'' \<mapsto> Bool_val True, ''user'' \<mapsto> String_val '''',
               ''cluster'' \<mapsto> String_val '''']
   \<and> response (select_context_rb failing_save example_server ''dev'' no_session)
       = c_String 500 ''Failed to save session''"
proof -
  have 1: "kubeConfigBytes example_server \<noteq> None"
    and 2: "Contexts (kubeConfig example_server) \<noteq> []"
    and 3: "''dev'' \<notin> set (map ctx_Name (Contexts (kubeConfig example_server)))"
    and 4: "\<And>s. Save example_lib s = None"
    and 5: "\<And>s. failing_save s \<noteq> None"
    by (simp_all add: example_server_loaded example_lib_fields failing_save_def)
       (simp add: example_config_def)
  have 6: "session_mem (select_context_rb (Save example_lib) example_server ''dev'' no_session)
      = [''authenticated'' \<mapsto> Bool_val True, ''user'' \<mapsto> String_val '''',
         ''cluster'' \<mapsto> String_val '''']"
    by (simp add: select_context_rb_def example_server_loaded example_lookups
          example_lib_fields Let_def no_session_def)
  from select_context_rb_no_probe [OF 1 2, of "Save example_lib" "''dev''" no_session]
       select_context_rb_no_probe [OF 1 2, of failing_save "''dev''" no_session]
       3 4 5 6
  show ?thesis by simp
qed

text \<open>
  C10. The protected page of the role-binding variant checks the \<open>authenticated\<close> flag
  and then asserts that the session's \<open>user\<close> value is a string. For every session whose
  flag is true and whose \<open>user\<close> value is missing or not a string, the handler panics;
  it gives no response of its own.
\<close>

theorem home_rb_panics_without_user:
  assumes "sess ''authenticated'' = Some (Bool_val True)"
    and "\<forall>name. sess ''user'' \<noteq> Some (String_val name)"
  shows "\<exists>msg. home_rb K env srv sess = Panic msg"
  using assms
  by (simp add: home_rb_def split: option.splits session_value.splits)

theorem home_rb_panics_without_user_witness:
  "flag_only_session ''authenticated'' = Some (Bool_val True)
   \<and> flag_only_session ''user'' = None
   \<and> (\<exists>msg. home_rb example_k8s no_environ example_server flag_only_session = Panic msg)"
proof -
  have 1: "flag_only_session ''authenticated'' = Some (Bool_val True)"
    and 2: "flag_only_session ''user'' = None"
    by (simp_all add: flag_only_session_def)
  from 2 have 3: "\<forall>name. flag_only_session ''user'' \<noteq> Some (String_val name)" by simp
  from home_rb_panics_without_user [OF 1 3, of example_k8s no_environ example_server] 1 2
  show ?thesis by simp
qed

end
